theory Spec2Isabelle
  imports Main "HOL-Library.Word" "HOL-Library.Signed_Division"
begin

unbundle bit_operations_syntax

section \<open>Script numbers (src/script/script_num.cpp)\<close>

subsection \<open>Values, builds and failures\<close>

text \<open>
  \<open>CScriptNum\<close> holds one member, \<open>m_value\<close>, a \<open>std::variant<int64_t, bsv::bint>\<close>.
  Alternative 0 is the 64-bit signed integer, alternative 1 the big integer.

  Modelled from the spec: the class \<open>bsv::bint\<close> is declared in \<open>big_int.h\<close>, which is not
  among the source files; the specification calls it an arbitrary-precision signed integer,
  and it is represented by the mathematical integers.
\<close>

type_synonym uint8_t = "8 word"
type_synonym int64_t = "64 word"
type_synonym int_t = "32 word"
type_synonym bint = int

datatype value_type = v_int64 int64_t | v_bint bint

record CScriptNum =
  m_value :: value_type

fun index :: "value_type \<Rightarrow> nat" where
  "index (v_int64 _) = 0"
| "index (v_bint _) = 1"

text \<open>
  The standard macro \<open>assert\<close> aborts the program when its condition is false, unless the
  translation unit is compiled with \<open>NDEBUG\<close>, in which case the condition is not even
  evaluated. The build is therefore a parameter of every operation that asserts.
\<close>

datatype build = assertions_enabled | NDEBUG

datatype assertion =
    assert_equal_index
  | assert_add_in_range
  | assert_sub_in_range
  | assert_index_0
  | assert_index_1
  | assert_value_0
  | assert_index_matches_big_int

datatype undefined_kind = signed_overflow | division_by_zero

text \<open>
  The ways an operation can end without a result: the two exceptions of the byte
  constructor, the exception \<open>std::get\<close> throws on the wrong alternative, a failed
  \<open>assert\<close>, an operation whose behaviour C++ leaves undefined, and the failure of the big
  integer's own division.
\<close>

datatype failure =
    scriptnum_overflow_error
  | scriptnum_minencode_error
  | bad_variant_access
  | assertion_failed assertion
  | undefined_behaviour undefined_kind
  | DivByZero

definition asserted :: "build \<Rightarrow> assertion \<Rightarrow> bool \<Rightarrow> (failure + 'a) \<Rightarrow> failure + 'a" where
  "asserted bld a c k = (if bld = assertions_enabled \<and> \<not> c then Inl (assertion_failed a) else k)"

definition bind_r :: "(failure + 'a) \<Rightarrow> ('a \<Rightarrow> failure + 'b) \<Rightarrow> failure + 'b" where
  "bind_r m f = (case m of Inl e \<Rightarrow> Inl e | Inr x \<Rightarrow> f x)"

text \<open>\<open>std::get<0>\<close> and \<open>std::get<1>\<close>: checked access to an alternative.\<close>

definition get_0 :: "value_type \<Rightarrow> failure + int64_t" where
  "get_0 v = (case v of v_int64 x \<Rightarrow> Inr x | v_bint _ \<Rightarrow> Inl bad_variant_access)"

definition get_1 :: "value_type \<Rightarrow> failure + bint" where
  "get_1 v = (case v of v_bint n \<Rightarrow> Inr n | v_int64 _ \<Rightarrow> Inl bad_variant_access)"

definition equal_index :: "CScriptNum \<Rightarrow> CScriptNum \<Rightarrow> bool" where
  "equal_index this other = (index (m_value this) = index (m_value other))"

definition int64_max :: int64_t where
  "int64_max = 0x7FFFFFFFFFFFFFFF"

definition int64_min :: int64_t where
  "int64_min = 0x8000000000000000"

definition int_max :: int where
  "int_max = 2147483647"

definition int_min :: int where
  "int_min = - 2147483648"

subsection \<open>The byte codec\<close>

text \<open>
  Modelled from the spec: \<open>bsv::serialize\<close>, \<open>bsv::deserialize\<close> and
  \<open>bsv::IsMinimallyEncoded\<close> are declared in \<open>int_serialization.h\<close>, which is not among
  the source files. The specification fixes the format: sign-magnitude, little-endian,
  byte 0 the least significant magnitude byte, the most significant bit of the final byte
  the sign (1 = negative), zero the empty sequence, and the encoder's output of minimal
  length.
\<close>

fun le_bytes :: "nat \<Rightarrow> uint8_t list" where
  "le_bytes n = (if n = 0 then [] else of_nat (n mod 256) # le_bytes (n div 256))"

declare le_bytes.simps [simp del]

fun le_nat :: "uint8_t list \<Rightarrow> nat" where
  "le_nat [] = 0"
| "le_nat (b # bs) = unat b + 256 * le_nat bs"

text \<open>
  Modelled from the spec: the encoder. The magnitude is written low byte first; when its
  top byte already uses bit 7 a further byte carries the sign, otherwise the sign goes
  into bit 7 of the top byte.
\<close>

definition serialize :: "int \<Rightarrow> uint8_t list" where
  "serialize n =
     (if n = 0 then []
      else let m = le_bytes (nat \<bar>n\<bar>) in
        if last m AND 0x80 \<noteq> 0 then m @ [if n < 0 then 0x80 else 0x00]
        else if n < 0 then butlast m @ [last m OR 0x80]
        else m)"

text \<open>
  Modelled from the spec: the decoder, as a mathematical integer. The sign bit of the
  final byte is masked off before the magnitude is read.
\<close>

definition deserialize :: "uint8_t list \<Rightarrow> int" where
  "deserialize vch =
     (if vch = [] then 0
      else let mag = int (le_nat (butlast vch @ [last vch AND 0x7F])) in
        if last vch AND 0x80 \<noteq> 0 then - mag else mag)"

text \<open>
  Modelled from the spec: the two instances of the decoder. The big-integer instance
  returns the decoded integer. The 64-bit instance returns an \<open>int64_t\<close>; the
  specification does not say what it returns when the decoded integer has no 64-bit
  representation, and the model keeps the low 64 bits there.
\<close>

definition deserialize_bint :: "uint8_t list \<Rightarrow> bint" where
  "deserialize_bint vch = deserialize vch"

definition deserialize_int64 :: "uint8_t list \<Rightarrow> int64_t" where
  "deserialize_int64 vch = word_of_int (deserialize vch)"

text \<open>
  Modelled from the spec: a sequence is minimally encoded when it is empty, or its final
  byte is nonzero once the sign bit is masked off, or its final byte is \<open>0x00\<close> or \<open>0x80\<close>
  and no shorter equivalent exists, which is the case exactly when the byte before it
  has bit 7 set (the sign has nowhere else to go). The specification gives the size
  bound no part in the predicate.
\<close>

definition IsMinimallyEncoded :: "uint8_t list \<Rightarrow> nat \<Rightarrow> bool" where
  "IsMinimallyEncoded vch nMaxNumSize =
     (vch = [] \<or> last vch AND 0x7F \<noteq> 0 \<or>
      (1 < length vch \<and> vch ! (length vch - 2) AND 0x80 \<noteq> 0))"

subsection \<open>Construction from bytes and conversion to bytes\<close>

text \<open>
  \<open>CScriptNum::CScriptNum(vch, fRequireMinimal, nMaxNumSize, big_int)\<close>. The member starts
  as alternative 0 holding 0, which the first two assertions state. The two exceptions
  are thrown in the order of the source; the assertions on the index follow each
  assignment.
\<close>

definition CScriptNum_bytes ::
  "build \<Rightarrow> uint8_t list \<Rightarrow> bool \<Rightarrow> nat \<Rightarrow> bool \<Rightarrow> failure + CScriptNum" where
  "CScriptNum_bytes bld vch fRequireMinimal nMaxNumSize big_int =
     (let m0 = v_int64 0 in
      asserted bld assert_index_0 (index m0 = 0)
     (asserted bld assert_value_0 (get_0 m0 = Inr 0)
     (if nMaxNumSize < length vch then Inl scriptnum_overflow_error
      else if fRequireMinimal \<and> \<not> IsMinimallyEncoded vch nMaxNumSize
        then Inl scriptnum_minencode_error
      else bind_r
        (if vch = [] then
           (if big_int
            then asserted bld assert_index_1 (index (v_bint 0) = 1) (Inr (v_bint 0))
            else Inr m0)
         else if length vch \<le> nMaxNumSize then
           (if big_int then Inr (v_bint (deserialize_bint vch))
            else Inr (v_int64 (deserialize_int64 vch)))
         else Inr m0)
        (\<lambda>m. asserted bld assert_index_matches_big_int
                (if big_int then index m = 1 else index m = 0)
                (Inr \<lparr>m_value = m\<rparr>)))))"

text \<open>\<open>CScriptNum::getvch\<close>: the visitor serialises whichever alternative is held.\<close>

definition getvch :: "CScriptNum \<Rightarrow> uint8_t list" where
  "getvch this =
     (case m_value this of
        v_bint n \<Rightarrow> serialize n
      | v_int64 n \<Rightarrow> serialize (sint n))"

subsection \<open>Arithmetic on the alternatives\<close>

text \<open>
  The built-in operations on \<open>int64_t\<close>. Signed overflow and division by zero are
  undefined in C++; division truncates towards zero. The assertions of \<open>operator+=\<close> and
  \<open>operator-=\<close> are evaluated before the operation; their subtractions and additions on
  the limits are guarded by the sign tests on the left of each \<open>&&\<close>.
\<close>

definition in_int64 :: "int \<Rightarrow> bool" where
  "in_int64 k = (- (2 ^ 63) \<le> k \<and> k < 2 ^ 63)"

definition add_int64 :: "build \<Rightarrow> int64_t \<Rightarrow> int64_t \<Rightarrow> failure + int64_t" where
  "add_int64 bld a b =
     asserted bld assert_add_in_range
       (b = 0 \<or> (0 <s b \<and> a \<le>s int64_max - b) \<or> (b <s 0 \<and> int64_min - b \<le>s a))
       (if in_int64 (sint a + sint b) then Inr (a + b)
        else Inl (undefined_behaviour signed_overflow))"

definition sub_int64 :: "build \<Rightarrow> int64_t \<Rightarrow> int64_t \<Rightarrow> failure + int64_t" where
  "sub_int64 bld a b =
     asserted bld assert_sub_in_range
       (b = 0 \<or> (0 <s b \<and> int64_min + b \<le>s a) \<or> (b <s 0 \<and> a \<le>s int64_max + b))
       (if in_int64 (sint a - sint b) then Inr (a - b)
        else Inl (undefined_behaviour signed_overflow))"

definition mul_int64 :: "int64_t \<Rightarrow> int64_t \<Rightarrow> failure + int64_t" where
  "mul_int64 a b =
     (if in_int64 (sint a * sint b) then Inr (a * b)
      else Inl (undefined_behaviour signed_overflow))"

definition div_int64 :: "int64_t \<Rightarrow> int64_t \<Rightarrow> failure + int64_t" where
  "div_int64 a b =
     (if b = 0 then Inl (undefined_behaviour division_by_zero)
      else if in_int64 (sint a sdiv sint b) then Inr (word_of_int (sint a sdiv sint b))
      else Inl (undefined_behaviour signed_overflow))"

definition mod_int64 :: "int64_t \<Rightarrow> int64_t \<Rightarrow> failure + int64_t" where
  "mod_int64 a b =
     (if b = 0 then Inl (undefined_behaviour division_by_zero)
      else if in_int64 (sint a sdiv sint b) then Inr (word_of_int (sint a smod sint b))
      else Inl (undefined_behaviour signed_overflow))"

text \<open>
  Modelled from the spec: the operators of \<open>bsv::bint\<close> (declared in \<open>big_int.h\<close>, not among
  the source files) are those of the integers; its division and remainder truncate like
  the built-in ones and fail with \<open>DivByZero\<close> on a zero divisor.
\<close>

definition div_bint :: "bint \<Rightarrow> bint \<Rightarrow> failure + bint" where
  "div_bint a b = (if b = 0 then Inl DivByZero else Inr (a sdiv b))"

definition mod_bint :: "bint \<Rightarrow> bint \<Rightarrow> failure + bint" where
  "mod_bint a b = (if b = 0 then Inl DivByZero else Inr (a smod b))"

subsection \<open>Compound assignment\<close>

text \<open>
  Every compound assignment taking a \<open>CScriptNum\<close> has the same shape in the source:
  \<^verbatim>\<open>assert(equal_index(other));
  if(m_value.index() == 0) get<0>(m_value) op= get<0>(other.m_value);
  else                     get<1>(m_value) op= get<1>(other.m_value);
  assert(equal_index(other));
  return *this;\<close>
  Both operands of \<open>op=\<close> are evaluated before the assignment, so a throwing \<open>get\<close> leaves
  the object unchanged.
\<close>

definition compound_assign ::
  "build \<Rightarrow> (int64_t \<Rightarrow> int64_t \<Rightarrow> failure + int64_t) \<Rightarrow> (bint \<Rightarrow> bint \<Rightarrow> failure + bint) \<Rightarrow>
   CScriptNum \<Rightarrow> CScriptNum \<Rightarrow> failure + CScriptNum" where
  "compound_assign bld op0 op1 this other =
     asserted bld assert_equal_index (equal_index this other)
       (bind_r
          (if index (m_value this) = 0 then
             bind_r (get_0 (m_value this)) (\<lambda>a.
             bind_r (get_0 (m_value other)) (\<lambda>b.
             bind_r (op0 a b) (\<lambda>c. Inr (v_int64 c))))
           else
             bind_r (get_1 (m_value this)) (\<lambda>a.
             bind_r (get_1 (m_value other)) (\<lambda>b.
             bind_r (op1 a b) (\<lambda>c. Inr (v_bint c)))))
          (\<lambda>m. asserted bld assert_equal_index (equal_index \<lparr>m_value = m\<rparr> other)
                  (Inr \<lparr>m_value = m\<rparr>)))"

definition operator_and_eq :: "build \<Rightarrow> CScriptNum \<Rightarrow> CScriptNum \<Rightarrow> failure + CScriptNum" where
  "operator_and_eq bld = compound_assign bld (\<lambda>a b. Inr (a AND b)) (\<lambda>a b. Inr (a AND b))"

definition operator_plus_eq :: "build \<Rightarrow> CScriptNum \<Rightarrow> CScriptNum \<Rightarrow> failure + CScriptNum" where
  "operator_plus_eq bld = compound_assign bld (add_int64 bld) (\<lambda>a b. Inr (a + b))"

definition operator_minus_eq :: "build \<Rightarrow> CScriptNum \<Rightarrow> CScriptNum \<Rightarrow> failure + CScriptNum" where
  "operator_minus_eq bld = compound_assign bld (sub_int64 bld) (\<lambda>a b. Inr (a - b))"

definition operator_times_eq :: "build \<Rightarrow> CScriptNum \<Rightarrow> CScriptNum \<Rightarrow> failure + CScriptNum" where
  "operator_times_eq bld = compound_assign bld mul_int64 (\<lambda>a b. Inr (a * b))"

definition operator_div_eq :: "build \<Rightarrow> CScriptNum \<Rightarrow> CScriptNum \<Rightarrow> failure + CScriptNum" where
  "operator_div_eq bld = compound_assign bld div_int64 div_bint"

definition operator_mod_eq :: "build \<Rightarrow> CScriptNum \<Rightarrow> CScriptNum \<Rightarrow> failure + CScriptNum" where
  "operator_mod_eq bld = compound_assign bld mod_int64 mod_bint"

subsection \<open>Comparison\<close>

text \<open>
  \<open>operator==\<close> and \<open>operator<\<close>. With equal indices the variants are compared, which
  compares the held values. Otherwise the nested \<open>visit\<close> applies \<open>a == b\<close> (or \<open>a < b\<close>) to
  the two held values, one an \<open>int64_t\<close> and one a \<open>bint\<close>.

  Modelled from the spec: the comparison of an \<open>int64_t\<close> with a \<open>bint\<close> is the big
  integer's own operator, declared in \<open>big_int.h\<close>; it compares the two as integers.
\<close>

fun variant_eq :: "value_type \<Rightarrow> value_type \<Rightarrow> bool" where
  "variant_eq (v_int64 x) (v_int64 y) = (x = y)"
| "variant_eq (v_bint x) (v_bint y) = (x = y)"
| "variant_eq _ _ = False"

fun variant_less :: "value_type \<Rightarrow> value_type \<Rightarrow> bool" where
  "variant_less (v_int64 x) (v_int64 y) = (x <s y)"
| "variant_less (v_bint x) (v_bint y) = (x < y)"
| "variant_less v w = (index v < index w)"

fun visit_eq :: "value_type \<Rightarrow> value_type \<Rightarrow> bool" where
  "visit_eq (v_int64 x) (v_int64 y) = (x = y)"
| "visit_eq (v_int64 x) (v_bint y) = (sint x = y)"
| "visit_eq (v_bint x) (v_int64 y) = (x = sint y)"
| "visit_eq (v_bint x) (v_bint y) = (x = y)"

fun visit_less :: "value_type \<Rightarrow> value_type \<Rightarrow> bool" where
  "visit_less (v_int64 x) (v_int64 y) = (x <s y)"
| "visit_less (v_int64 x) (v_bint y) = (sint x < y)"
| "visit_less (v_bint x) (v_int64 y) = (x < sint y)"
| "visit_less (v_bint x) (v_bint y) = (x < y)"

definition operator_eq_eq :: "CScriptNum \<Rightarrow> CScriptNum \<Rightarrow> bool" where
  "operator_eq_eq a b =
     (if equal_index a b then variant_eq (m_value a) (m_value b)
      else visit_eq (m_value a) (m_value b))"

definition operator_less :: "CScriptNum \<Rightarrow> CScriptNum \<Rightarrow> bool" where
  "operator_less a b =
     (if equal_index a b then variant_less (m_value a) (m_value b)
      else visit_less (m_value a) (m_value b))"

subsection \<open>Conversion to \<open>int\<close>\<close>

text \<open>
  \<open>CScriptNum::getint\<close>. The comparisons of the \<open>int64_t\<close> with the limits of \<open>int\<close> are
  made in 64 bits; the last branch narrows a value that is inside the range of \<open>int\<close>.
\<close>

definition getint :: "build \<Rightarrow> CScriptNum \<Rightarrow> failure + int_t" where
  "getint bld this =
     asserted bld assert_index_0 (index (m_value this) = 0)
       (bind_r (get_0 (m_value this)) (\<lambda>n.
          if int_max < sint n then Inr (word_of_int int_max)
          else if sint n < int_min then Inr (word_of_int int_min)
          else Inr (scast n)))"

text \<open>
  The integer a script number stands for, whichever alternative holds it. The source has
  no such function; it is the specification's ``mathematical value'', against which the
  comparison operators are checked.
\<close>

definition mathematical_value :: "CScriptNum \<Rightarrow> int" where
  "mathematical_value a = (case m_value a of v_int64 x \<Rightarrow> sint x | v_bint n \<Rightarrow> n)"

section \<open>Invalid transactions (src/invalid_txn_publisher.h)\<close>

subsection \<open>Types declared elsewhere\<close>

text \<open>
  The header uses classes declared in other headers. Of \<open>CTransaction\<close> only
  \<open>GetTotalSize()\<close> (a \<open>size_t\<close>) and \<open>GetId()\<close> are called, of \<open>CValidationState\<close> only
  \<open>IsValid()\<close>, of \<open>CBlockIndex\<close> only \<open>GetBlockHash()\<close>, \<open>nHeight\<close> and \<open>GetBlockTime()\<close>;
  each class is a record of what is called, the block index with its height and time
  already converted to the \<open>int64_t\<close> the header stores them in. A \<open>CTransactionRef\<close>, a
  shared pointer to a constant transaction, is represented by the transaction it points
  to. \<open>NodeId\<close> and \<open>std::time_t\<close> are 64-bit integers and \<open>TxSource\<close> is an
  enumeration, kept as its ordinal.
\<close>

type_synonym uint256 = "256 word"
type_synonym size_t = "64 word"
type_synonym time_t = "64 word"
type_synonym NodeId = int64_t
type_synonym TxSource = nat

record CTransaction =
  GetTotalSize :: size_t
  GetId :: uint256

record CValidationState =
  IsValid :: bool
  GetRejectCode :: nat
  GetRejectReason :: string

record CBlockIndex =
  GetBlockHash :: uint256
  nHeight :: int64_t
  GetBlockTime :: int64_t

subsection \<open>\<open>InvalidTxnInfo\<close>\<close>

record TxData =
  txSize :: int64_t
  txid :: uint256

record BlockOrigin =
  source :: string
  address :: string
  nodeId :: NodeId

record BlockDetails =
  origins :: "BlockOrigin list"
  hash :: uint256
  height :: int64_t
  time :: int64_t

text \<open>
  The fields of \<open>TxDetails\<close> are \<open>src\<close>, \<open>nodeId\<close> and \<open>address\<close> in the source; the last two
  carry a prefix here because \<open>BlockOrigin\<close> has fields of the same names.
\<close>

record TxDetails =
  src :: TxSource
  tx_nodeId :: NodeId
  tx_address :: string

text \<open>The two variants: \<open>mTransaction\<close> and \<open>mDetails\<close>.\<close>

datatype transaction_variant = holds_CTransactionRef CTransaction | holds_TxData TxData

datatype details_variant = holds_BlockDetails BlockDetails | holds_TxDetails TxDetails

record InvalidTxnInfo =
  mTransaction :: transaction_variant
  mTxValidationState :: CValidationState
  mDetails :: details_variant
  mRejectionTime :: time_t

text \<open>The constructor taking \<open>(tx, details, rejectionTime, state)\<close>.\<close>

definition InvalidTxnInfo_details ::
  "CTransaction \<Rightarrow> details_variant \<Rightarrow> int64_t \<Rightarrow> CValidationState \<Rightarrow> InvalidTxnInfo" where
  "InvalidTxnInfo_details tx details rejectionTime state =
     \<lparr>mTransaction = holds_CTransactionRef tx,
      mTxValidationState = state,
      mDetails = details,
      mRejectionTime = rejectionTime\<rparr>"

text \<open>
  The constructor taking \<open>(tx, hash, height, time, state)\<close>. It delegates to the first with
  \<open>BlockDetails{{}, hash, height, time}\<close> and \<open>std::time(nullptr)\<close>; the value the clock
  returns at that call is the parameter \<open>now\<close>.
\<close>

definition InvalidTxnInfo_block ::
  "time_t \<Rightarrow> CTransaction \<Rightarrow> uint256 \<Rightarrow> int64_t \<Rightarrow> int64_t \<Rightarrow> CValidationState \<Rightarrow> InvalidTxnInfo" where
  "InvalidTxnInfo_block now tx hash' height' time' state =
     InvalidTxnInfo_details tx
       (holds_BlockDetails \<lparr>origins = [], hash = hash', height = height', time = time'\<rparr>)
       now state"

text \<open>The constructor taking \<open>(tx, blockIndex, state)\<close>, which dereferences the block index.\<close>

definition InvalidTxnInfo_blockIndex ::
  "time_t \<Rightarrow> CTransaction \<Rightarrow> CBlockIndex \<Rightarrow> CValidationState \<Rightarrow> InvalidTxnInfo" where
  "InvalidTxnInfo_blockIndex now tx blockIndex state =
     InvalidTxnInfo_block now tx (GetBlockHash blockIndex) (nHeight blockIndex)
       (GetBlockTime blockIndex) state"

definition GetTotalTransactionSize :: "InvalidTxnInfo \<Rightarrow> size_t" where
  "GetTotalTransactionSize this =
     (case mTransaction this of
        holds_CTransactionRef tx \<Rightarrow> GetTotalSize tx
      | holds_TxData _ \<Rightarrow> 0)"

text \<open>
  \<open>TruncateTransactionDetails\<close> returns its result together with the object as the call
  leaves it. The \<open>size_t\<close> of \<open>GetTotalSize()\<close> is stored into the \<open>int64_t\<close> field with its
  64 bits unchanged.
\<close>

definition TruncateTransactionDetails :: "InvalidTxnInfo \<Rightarrow> bool \<times> InvalidTxnInfo" where
  "TruncateTransactionDetails this =
     (case mTransaction this of
        holds_TxData _ \<Rightarrow> (False, this)
      | holds_CTransactionRef tx \<Rightarrow>
          (True, this\<lparr>mTransaction := holds_TxData \<lparr>txSize = GetTotalSize tx, txid = GetId tx\<rparr>\<rparr>))"

text \<open>
  A sequence of \<open>n\<close> calls on one object: the values returned, in order, and the object
  after the last call.
\<close>

fun truncate_calls :: "nat \<Rightarrow> InvalidTxnInfo \<Rightarrow> bool list \<times> InvalidTxnInfo" where
  "truncate_calls 0 this = ([], this)"
| "truncate_calls (Suc n) this =
     (case TruncateTransactionDetails this of
        (r, this') \<Rightarrow> (case truncate_calls n this' of (rs, this'') \<Rightarrow> (r # rs, this'')))"

subsection \<open>The scoped sender\<close>

text \<open>
  Modelled from the spec: \<open>CInvalidTxnPublisher::Publish\<close> and
  \<open>CScopedBlockOriginRegistry::GetOrigins\<close> are declared in the header and defined outside
  the source files. The publisher is represented by the records handed to \<open>Publish\<close>, in
  order; the registry by its entries in insertion order, of which \<open>GetOrigins\<close> returns
  those with the given hash.
\<close>

type_synonym CInvalidTxnPublisher = "InvalidTxnInfo list"
type_synonym BlockOriginRegistry = "(uint256 \<times> BlockOrigin) list"

definition Publish :: "CInvalidTxnPublisher \<Rightarrow> InvalidTxnInfo \<Rightarrow> CInvalidTxnPublisher" where
  "Publish publisher info = publisher @ [info]"

definition GetOrigins :: "BlockOriginRegistry \<Rightarrow> uint256 \<Rightarrow> BlockOrigin list" where
  "GetOrigins mRegistry blockHash = map snd (filter (\<lambda>e. fst e = blockHash) mRegistry)"

text \<open>
  \<open>CScopedInvalidTxSenderBlock\<close> owns \<open>blockDetails\<close> and \<open>transaction\<close>; \<open>publisher\<close> and
  \<open>validationState\<close> are references, so the destructor takes the publisher and the
  validation state as they are when it runs. A null block index gives value-initialised
  block details.
\<close>

record CScopedInvalidTxSenderBlock =
  blockDetails :: BlockDetails
  transaction :: CTransaction

definition CScopedInvalidTxSenderBlock_ctor ::
  "CTransaction \<Rightarrow> CBlockIndex option \<Rightarrow> CScopedInvalidTxSenderBlock" where
  "CScopedInvalidTxSenderBlock_ctor tx blockIndex =
     \<lparr>blockDetails =
        (case blockIndex of
           Some bi \<Rightarrow> \<lparr>origins = [], hash = GetBlockHash bi, height = nHeight bi,
                       time = GetBlockTime bi\<rparr>
         | None \<Rightarrow> \<lparr>origins = [], hash = 0, height = 0, time = 0\<rparr>),
      transaction = tx\<rparr>"

definition CScopedInvalidTxSenderBlock_dtor ::
  "time_t \<Rightarrow> BlockOriginRegistry \<Rightarrow> CValidationState \<Rightarrow> CScopedInvalidTxSenderBlock \<Rightarrow>
   CInvalidTxnPublisher \<Rightarrow> CInvalidTxnPublisher" where
  "CScopedInvalidTxSenderBlock_dtor now mRegistry validationState this publisher =
     (if IsValid validationState then publisher
      else
        let details = (blockDetails this)
              \<lparr>origins := GetOrigins mRegistry (hash (blockDetails this))\<rparr>
        in Publish publisher
             (InvalidTxnInfo_details (transaction this) (holds_BlockDetails details) now
                validationState))"

text \<open>
  A validation scope: the sender is constructed on entry, \<open>body\<close> is what the scope does
  to the validation state the sender refers to, and the destructor runs on exit.
\<close>

definition validation_scope ::
  "time_t \<Rightarrow> BlockOriginRegistry \<Rightarrow> CTransaction \<Rightarrow> CBlockIndex option \<Rightarrow>
   (CValidationState \<Rightarrow> CValidationState) \<Rightarrow> CValidationState \<Rightarrow> CInvalidTxnPublisher \<Rightarrow>
   CValidationState \<times> CInvalidTxnPublisher" where
  "validation_scope now mRegistry tx blockIndex body state publisher =
     (let sender = CScopedInvalidTxSenderBlock_ctor tx blockIndex;
          state' = body state
      in (state', CScopedInvalidTxSenderBlock_dtor now mRegistry state' sender publisher))"

subsection \<open>Sample values\<close>

text \<open>Concrete records on which the definitions above are evaluated.\<close>

definition tx_example :: CTransaction where
  "tx_example = \<lparr>GetTotalSize = 250, GetId = 0xABCD\<rparr>"

definition state_invalid :: CValidationState where
  "state_invalid = \<lparr>IsValid = False, GetRejectCode = 16, GetRejectReason = ''bad-txns''\<rparr>"

definition state_valid :: CValidationState where
  "state_valid = \<lparr>IsValid = True, GetRejectCode = 0, GetRejectReason = []\<rparr>"

section \<open>Properties of the script numbers\<close>

subsection \<open>Signed 64-bit and 32-bit values\<close>

lemma sint_word_of_int_32:
  "int_min \<le> k \<Longrightarrow> k \<le> int_max \<Longrightarrow> sint (word_of_int k :: int_t) = k"
  by (simp add: int_min_def int_max_def sint_sbintrunc' signed_take_bit_int_eq_self)

lemma sint_scast_32:
  "int_min \<le> sint n \<Longrightarrow> sint n \<le> int_max \<Longrightarrow> sint (scast n :: int_t) = sint (n :: int64_t)"
  by (simp add: int_min_def int_max_def signed_scast_eq signed_take_bit_int_eq_self)

lemma sint_int64_max: "sint int64_max = 2 ^ 63 - 1"
  by (simp add: int64_max_def)

lemma sint_int64_min: "sint int64_min = - (2 ^ 63)"
  by (simp add: int64_min_def)

lemma sint_bounds64: "- (2 ^ 63) \<le> sint (a :: int64_t)" "sint (a :: int64_t) < 2 ^ 63"
  using sint_ge [of a] sint_lt [of a] by simp_all

lemma sint_sub64:
  "in_int64 (sint a - sint b) \<Longrightarrow> sint (a - b :: int64_t) = sint a - sint b"
  by (simp add: in_int64_def sint_word_ariths signed_take_bit_int_eq_self)

lemma sint_add64:
  "in_int64 (sint a + sint b) \<Longrightarrow> sint (a + b :: int64_t) = sint a + sint b"
  by (simp add: in_int64_def sint_word_ariths signed_take_bit_int_eq_self)

lemma sint_eq_0_iff: "(b :: int64_t) = 0 \<longleftrightarrow> sint b = 0"
  by (simp add: signed_eq_0_iff)

lemma add_guard_iff:
  "(b = 0 \<or> (0 <s b \<and> a \<le>s int64_max - b) \<or> (b <s 0 \<and> int64_min - b \<le>s a))
     \<longleftrightarrow> in_int64 (sint a + sint (b :: int64_t))"
proof -
  have p: "0 < sint b \<Longrightarrow> sint (int64_max - b) = 2 ^ 63 - 1 - sint b"
    using sint_bounds64 [of b] by (subst sint_sub64) (simp_all add: in_int64_def sint_int64_max)
  have n: "sint b < 0 \<Longrightarrow> sint (int64_min - b) = - (2 ^ 63) - sint b"
    using sint_bounds64 [of b] by (subst sint_sub64) (simp_all add: in_int64_def sint_int64_min)
  consider "sint b = 0" | "0 < sint b" | "sint b < 0" by linarith
  then show ?thesis
  proof cases
    case 1
    then show ?thesis
      using sint_bounds64 [of a] by (simp add: sint_eq_0_iff in_int64_def)
  next
    case 2
    then show ?thesis
      using sint_bounds64 [of a] p
      by (simp add: word_sle_eq word_sless_alt sint_eq_0_iff in_int64_def) linarith
  next
    case 3
    then show ?thesis
      using sint_bounds64 [of a] n
      by (simp add: word_sle_eq word_sless_alt sint_eq_0_iff in_int64_def) linarith
  qed
qed

lemma sub_guard_iff:
  "(b = 0 \<or> (0 <s b \<and> int64_min + b \<le>s a) \<or> (b <s 0 \<and> a \<le>s int64_max + b))
     \<longleftrightarrow> in_int64 (sint a - sint (b :: int64_t))"
proof -
  have p: "0 < sint b \<Longrightarrow> sint (int64_min + b) = - (2 ^ 63) + sint b"
    using sint_bounds64 [of b] by (subst sint_add64) (simp_all add: in_int64_def sint_int64_min)
  have n: "sint b < 0 \<Longrightarrow> sint (int64_max + b) = 2 ^ 63 - 1 + sint b"
    using sint_bounds64 [of b] by (subst sint_add64) (simp_all add: in_int64_def sint_int64_max)
  consider "sint b = 0" | "0 < sint b" | "sint b < 0" by linarith
  then show ?thesis
  proof cases
    case 1
    then show ?thesis
      using sint_bounds64 [of a] by (simp add: sint_eq_0_iff in_int64_def)
  next
    case 2
    then show ?thesis
      using sint_bounds64 [of a] p
      by (simp add: word_sle_eq word_sless_alt sint_eq_0_iff in_int64_def) linarith
  next
    case 3
    then show ?thesis
      using sint_bounds64 [of a] n
      by (simp add: word_sle_eq word_sless_alt sint_eq_0_iff in_int64_def) linarith
  qed
qed


lemma sint_word_of_int_64: "in_int64 k \<Longrightarrow> sint (word_of_int k :: int64_t) = k"
  by (simp add: in_int64_def sint_sbintrunc' signed_take_bit_int_eq_self)

lemma sint_inj64: "sint (x :: int64_t) = sint y \<longleftrightarrow> x = y"
  by (auto intro: signed_word_eqI)

subsection \<open>Bytes: the sign bit and the seven magnitude bits\<close>

lemma unat_byte_less: "unat (x :: uint8_t) < 256"
  using unsigned_less [of x, where 'a = nat] by simp

lemma unat_and_7F: "unat ((x :: uint8_t) AND 0x7F) = unat x mod 128"
proof -
  have "x AND 0x7F = take_bit 7 x"
    by (simp add: take_bit_eq_mask mask_eq_exp_minus_1)
  then show ?thesis
    by (simp add: unat_mod unsigned_take_bit_eq take_bit_eq_mod)
qed

lemma and_80_iff_bit: "(x :: uint8_t) AND 0x80 \<noteq> 0 \<longleftrightarrow> bit x 7"
  using bit_iff_and_push_bit_not_eq_0 [of x 7] by simp

lemma bit_7_iff: "bit (x :: uint8_t) 7 \<longleftrightarrow> 128 \<le> unat x"
proof -
  have "bit x 7 \<longleftrightarrow> bit (unat x) 7"
    by (simp add: bit_unsigned_iff)
  also have "\<dots> \<longleftrightarrow> odd (unat x div 128)"
    by (simp add: bit_iff_odd)
  also have "\<dots> \<longleftrightarrow> 128 \<le> unat x"
    using unat_byte_less [of x] by (auto elim!: oddE simp: odd_iff_mod_2_eq_one)
  finally show ?thesis .
qed

lemma and_80_iff: "(x :: uint8_t) AND 0x80 \<noteq> 0 \<longleftrightarrow> 128 \<le> unat x"
  by (simp add: and_80_iff_bit bit_7_iff)

lemma unat_or_80: "(x :: uint8_t) AND 0x80 = 0 \<Longrightarrow> unat (x OR 0x80) = unat x + 128"
proof -
  assume a: "x AND 0x80 = 0"
  then have "x OR 0x80 = x + 0x80"
    by (simp add: disjunctive_add_eq_or)
  moreover have "unat x < 128"
    using a and_80_iff [of x] by simp
  ultimately show ?thesis
    by (simp add: unat_word_ariths)
qed


lemma and_7F_id: "(x :: uint8_t) AND 0x80 = 0 \<Longrightarrow> x AND 0x7F = x"
  using and_80_iff [of x] by (simp add: word_unat_eq_iff unat_and_7F)

lemma or_80_and_7F: "(x :: uint8_t) AND 0x80 = 0 \<Longrightarrow> (x OR 0x80) AND 0x7F = x"
  using and_80_iff [of x] by (simp add: word_unat_eq_iff unat_and_7F unat_or_80)

lemma or_80_and_80: "(x :: uint8_t) AND 0x80 = 0 \<Longrightarrow> (x OR 0x80) AND 0x80 \<noteq> 0"
  by (simp add: and_80_iff unat_or_80)

lemma and_7F_and_80: "((x :: uint8_t) AND 0x7F) AND 0x80 = 0"
proof -
  have "unat x mod 128 < 128" by simp
  then have "\<not> 128 \<le> unat (x AND 0x7F)" by (simp add: unat_and_7F)
  then show ?thesis
    using and_80_iff [of "x AND 0x7F"] by blast
qed

lemma mod_128_high: "128 \<le> (k :: nat) \<Longrightarrow> k < 256 \<Longrightarrow> k mod 128 = k - 128"
  by (simp add: le_mod_geq)

lemma and_7F_or_80: "(x :: uint8_t) AND 0x80 \<noteq> 0 \<Longrightarrow> (x AND 0x7F) OR 0x80 = x"
proof -
  assume a: "x AND 0x80 \<noteq> 0"
  then have "128 \<le> unat x" by (simp add: and_80_iff)
  moreover have "unat x < 256" by (rule unat_byte_less)
  ultimately have "unat x mod 128 + 128 = unat x" by (simp add: mod_128_high)
  then show ?thesis
    by (simp add: word_unat_eq_iff unat_or_80 and_7F_and_80 unat_and_7F)
qed

lemma and_7F_eq_0:
  assumes "(x :: uint8_t) AND 0x7F = 0"
  shows "x = (if x AND 0x80 \<noteq> 0 then 0x80 else 0)"
proof (cases "x AND 0x80 \<noteq> 0")
  case True
  then have "(x AND 0x7F) OR 0x80 = x" by (rule and_7F_or_80)
  with assms True show ?thesis by simp
next
  case False
  then have "x AND 0x7F = x" by (simp add: and_7F_id)
  with assms False show ?thesis by simp
qed

subsection \<open>Little-endian magnitudes\<close>

lemma le_nat_append: "le_nat (bs @ cs) = le_nat bs + 256 ^ length bs * le_nat cs"
  by (induction bs) (simp_all add: algebra_simps)

lemma le_bytes_0: "le_bytes 0 = []"
  by (subst le_bytes.simps) simp

lemma le_bytes_pos: "n \<noteq> 0 \<Longrightarrow> le_bytes n = of_nat (n mod 256) # le_bytes (n div 256)"
  by (subst le_bytes.simps) simp

lemma le_nat_le_bytes: "le_nat (le_bytes n) = n"
proof (induction n rule: le_bytes.induct)
  case (1 n)
  show ?case
  proof (cases "n = 0")
    case True
    then show ?thesis by (simp add: le_bytes_0)
  next
    case False
    have "unat (of_nat (n mod 256) :: uint8_t) = n mod 256"
      by (simp add: unat_of_nat)
    with False 1 show ?thesis
      by (simp add: le_bytes_pos)
  qed
qed

lemma le_bytes_last: "n \<noteq> 0 \<Longrightarrow> le_bytes n \<noteq> [] \<and> last (le_bytes n) \<noteq> 0"
proof (induction n rule: le_bytes.induct)
  case (1 n)
  show ?case
  proof (cases "n div 256 = 0")
    case True
    with 1(2) have "n < 256" "n \<noteq> 0" by auto
    then have "(of_nat n :: uint8_t) \<noteq> 0"
      by (simp add: word_unat_eq_iff unat_of_nat)
    with True \<open>n < 256\<close> \<open>n \<noteq> 0\<close> show ?thesis
      by (simp add: le_bytes_pos le_bytes_0)
  next
    case False
    with 1 have "le_bytes (n div 256) \<noteq> [] \<and> last (le_bytes (n div 256)) \<noteq> 0"
      by simp
    with 1(2) show ?thesis
      by (simp add: le_bytes_pos)
  qed
qed

lemma le_bytes_le_nat: "bs \<noteq> [] \<Longrightarrow> last bs \<noteq> 0 \<Longrightarrow> le_bytes (le_nat bs) = bs"
proof (induction bs)
  case Nil
  then show ?case by simp
next
  case (Cons b bs)
  have b: "unat b < 256" by (rule unat_byte_less)
  show ?case
  proof (cases "bs = []")
    case True
    with Cons.prems have "unat b \<noteq> 0"
      by (simp add: unsigned_eq_0_iff)
    with True b show ?thesis
      by (simp add: le_bytes_pos le_bytes_0)
  next
    case False
    with Cons have ih: "le_bytes (le_nat bs) = bs" by simp
    have "(unat b + 256 * le_nat bs) mod 256 = unat b" "(unat b + 256 * le_nat bs) div 256 = le_nat bs"
      using b by simp_all
    moreover have "le_nat bs \<noteq> 0"
      using ih False by (metis le_bytes_0)
    ultimately show ?thesis
      using ih by (simp add: le_bytes_pos)
  qed
qed


lemma le_nat_pos: "bs \<noteq> [] \<Longrightarrow> last bs \<noteq> 0 \<Longrightarrow> le_nat bs \<noteq> 0"
  using le_bytes_le_nat [of bs] by (metis le_bytes_0)

subsection \<open>The codec: decoding inverts encoding, and minimal means canonical\<close>

lemma serialize_snoc:
  assumes "n \<noteq> 0" "le_bytes (nat \<bar>n\<bar>) = ms @ [t]"
  shows "serialize n =
    (if t AND 0x80 \<noteq> 0 then ms @ [t, if n < 0 then 0x80 else 0]
     else if n < 0 then ms @ [t OR 0x80] else ms @ [t])"
  using assms by (simp add: serialize_def)

lemma deserialize_snoc:
  "deserialize (bs @ [l]) =
     (if l AND 0x80 \<noteq> 0 then - int (le_nat (bs @ [l AND 0x7F]))
      else int (le_nat (bs @ [l AND 0x7F])))"
  by (simp add: deserialize_def)

lemma deserialize_serialize: "deserialize (serialize n) = n"
proof (cases "n = 0")
  case True
  then show ?thesis by (simp add: serialize_def deserialize_def)
next
  case False
  then have nz: "nat \<bar>n\<bar> \<noteq> 0" by simp
  obtain ms t where m: "le_bytes (nat \<bar>n\<bar>) = ms @ [t]"
    using le_bytes_last [OF nz] by (metis append_butlast_last_id)
  have mag: "le_nat (ms @ [t]) = nat \<bar>n\<bar>"
    using le_nat_le_bytes [of "nat \<bar>n\<bar>"] m by simp
  show ?thesis
  proof (cases "t AND 0x80 \<noteq> 0")
    case True
    have "le_nat (ms @ [t, 0]) = nat \<bar>n\<bar>"
      using mag by (simp add: le_nat_append)
    then show ?thesis
      using True False serialize_snoc [OF False m]
        deserialize_snoc [of "ms @ [t]" "0x80"] deserialize_snoc [of "ms @ [t]" 0]
      by (cases "n < 0") simp_all
  next
    case f: False
    then have "t AND 0x80 = 0" by simp
    then show ?thesis
      using False mag serialize_snoc [OF False m]
        deserialize_snoc [of ms "t OR 0x80"] deserialize_snoc [of ms t]
      by (cases "n < 0") (simp_all add: or_80_and_7F or_80_and_80 and_7F_id)
  qed
qed


lemma IsMinimallyEncoded_serialize: "IsMinimallyEncoded (serialize n) k"
proof (cases "n = 0")
  case True
  then show ?thesis by (simp add: serialize_def IsMinimallyEncoded_def)
next
  case False
  then have nz: "nat \<bar>n\<bar> \<noteq> 0" by simp
  obtain ms t where m: "le_bytes (nat \<bar>n\<bar>) = ms @ [t]"
    using le_bytes_last [OF nz] by (metis append_butlast_last_id)
  have t: "t \<noteq> 0"
    using le_bytes_last [OF nz] m by simp
  show ?thesis
  proof (cases "t AND 0x80 \<noteq> 0")
    case True
    then show ?thesis
      using serialize_snoc [OF False m]
      by (simp add: IsMinimallyEncoded_def nth_append)
  next
    case f: False
    then have z: "t AND 0x80 = 0" by simp
    then have "t AND 0x7F \<noteq> 0" "(t OR 0x80) AND 0x7F \<noteq> 0"
      using t by (simp_all add: and_7F_id or_80_and_7F)
    then show ?thesis
      using z serialize_snoc [OF False m]
      by (simp add: IsMinimallyEncoded_def)
  qed
qed

lemma serialize_deserialize:
  assumes "IsMinimallyEncoded b k"
  shows "serialize (deserialize b) = b"
proof (cases b rule: rev_cases)
  case Nil
  then show ?thesis by (simp add: serialize_def deserialize_def)
next
  case (snoc bs l)
  show ?thesis
  proof (cases "l AND 0x7F \<noteq> 0")
    case True
    let ?t = "l AND 0x7F"
    let ?n = "deserialize (bs @ [l])"
    have lb: "le_bytes (le_nat (bs @ [?t])) = bs @ [?t]"
      using True by (simp add: le_bytes_le_nat)
    have pos: "le_nat (bs @ [?t]) \<noteq> 0"
      using True by (simp add: le_nat_pos)
    have n: "?n \<noteq> 0" "nat \<bar>?n\<bar> = le_nat (bs @ [?t])" "?n < 0 \<longleftrightarrow> l AND 0x80 \<noteq> 0"
      using pos by (simp_all add: deserialize_snoc)
    have "serialize ?n = (if ?n < 0 then bs @ [?t OR 0x80] else bs @ [?t])"
      using serialize_snoc [OF n(1), of bs ?t] lb n(2) by (simp add: and_7F_and_80)
    then show ?thesis
      using n(3) snoc by (simp add: and_7F_or_80 and_7F_id)
  next
    case False
    then have l0: "l AND 0x7F = 0" by simp
    with assms snoc have "bs \<noteq> []" "last bs AND 0x80 \<noteq> 0"
      by (auto simp add: IsMinimallyEncoded_def nth_append last_conv_nth)
    then obtain bs' p where bs: "bs = bs' @ [p]" and p: "p AND 0x80 \<noteq> 0"
      by (metis append_butlast_last_id)
    from p have p0: "p \<noteq> 0" by auto
    let ?n = "deserialize (bs @ [l])"
    have mag: "le_nat (bs @ [l AND 0x7F]) = le_nat bs"
      using l0 by (simp add: le_nat_append)
    have lb: "le_bytes (le_nat bs) = bs' @ [p]"
      using bs p0 by (simp add: le_bytes_le_nat)
    have pos: "le_nat bs \<noteq> 0"
      using bs p0 by (simp add: le_nat_pos)
    have n: "?n \<noteq> 0" "nat \<bar>?n\<bar> = le_nat bs" "?n < 0 \<longleftrightarrow> l AND 0x80 \<noteq> 0"
      using pos mag by (simp_all add: deserialize_snoc)
    have "serialize ?n = bs' @ [p, if ?n < 0 then 0x80 else 0]"
      using serialize_snoc [OF n(1), of bs' p] lb n(2) p by simp
    moreover have "l = (if l AND 0x80 \<noteq> 0 then 0x80 else 0)"
      using l0 by (rule and_7F_eq_0)
    ultimately show ?thesis
      using n(3) snoc bs by simp
  qed
qed

lemma IsMinimallyEncoded_iff: "IsMinimallyEncoded b k \<longleftrightarrow> serialize (deserialize b) = b"
  using serialize_deserialize [of b k] IsMinimallyEncoded_serialize [of "deserialize b" k] by auto


lemma serialize_inj: "serialize m = serialize n \<Longrightarrow> m = n"
  by (metis deserialize_serialize)

text \<open>
  The predicate is the one the specification describes: a sequence is minimally encoded
  exactly when no shorter sequence decodes to the same integer, and the encoder's output
  is never longer than any sequence decoding to the same integer.
\<close>

lemma not_minimal_strip:
  assumes "\<not> IsMinimallyEncoded b k"
  shows "\<exists>b'. length b' < length b \<and> deserialize b' = deserialize b"
proof (cases b rule: rev_cases)
  case Nil
  with assms show ?thesis by (simp add: IsMinimallyEncoded_def)
next
  case (snoc bs l)
  with assms have l0: "l AND 0x7F = 0"
    by (simp add: IsMinimallyEncoded_def)
  show ?thesis
  proof (cases bs rule: rev_cases)
    case Nil
    with snoc l0 have "deserialize b = deserialize []"
      using deserialize_snoc [of "[]" l] by (simp add: deserialize_def)
    with snoc show ?thesis by (intro exI [of _ "[]"]) simp
  next
    case inner: (snoc bs' p)
    with assms snoc have p: "p AND 0x80 = 0"
      by (simp add: IsMinimallyEncoded_def nth_append)
    let ?b' = "bs' @ [if l AND 0x80 \<noteq> 0 then p OR 0x80 else p]"
    have mag: "le_nat (bs @ [l AND 0x7F]) = le_nat (bs' @ [p])"
      using l0 inner by (simp add: le_nat_append)
    have d: "deserialize b =
        (if l AND 0x80 \<noteq> 0 then - int (le_nat (bs' @ [p])) else int (le_nat (bs' @ [p])))"
      by (simp only: snoc deserialize_snoc mag)
    have "deserialize ?b' =
        (if l AND 0x80 \<noteq> 0 then - int (le_nat (bs' @ [p])) else int (le_nat (bs' @ [p])))"
      using p by (simp add: deserialize_snoc or_80_and_7F or_80_and_80 and_7F_id)
    with d have "deserialize ?b' = deserialize b" by simp
    with snoc inner show ?thesis by (intro exI [of _ ?b']) simp
  qed
qed

lemma serialize_shortest: "length (serialize (deserialize b)) \<le> length b"
proof (induction "length b" arbitrary: b rule: less_induct)
  case less
  show ?case
  proof (cases "IsMinimallyEncoded b 0")
    case True
    then show ?thesis by (simp add: serialize_deserialize)
  next
    case False
    then obtain b' where "length b' < length b" "deserialize b' = deserialize b"
      using not_minimal_strip by blast
    with less [of b'] show ?thesis by simp
  qed
qed

lemma IsMinimallyEncoded_shortest:
  "IsMinimallyEncoded b k \<longleftrightarrow> \<not> (\<exists>b'. length b' < length b \<and> deserialize b' = deserialize b)"
proof
  assume m: "IsMinimallyEncoded b k"
  show "\<not> (\<exists>b'. length b' < length b \<and> deserialize b' = deserialize b)"
  proof
    assume "\<exists>b'. length b' < length b \<and> deserialize b' = deserialize b"
    then obtain b' where s: "length b' < length b" and e: "deserialize b' = deserialize b"
      by blast
    have "length (serialize (deserialize b')) \<le> length b'" by (rule serialize_shortest)
    with e m have "length b \<le> length b'" by (simp add: serialize_deserialize)
    with s show False by simp
  qed
next
  assume "\<not> (\<exists>b'. length b' < length b \<and> deserialize b' = deserialize b)"
  then show "IsMinimallyEncoded b k"
    using not_minimal_strip by blast
qed

text \<open>
  The codec on the specification's sample values: zero is the empty sequence, \<open>-128\<close>
  needs a byte for its sign, \<open>127\<close> does not. The two bytes \<open>0x81 0x00\<close> are the shortest
  encoding of 129 and therefore minimally encoded, although the specification's first
  scenario lists them as rejected; \<open>0x01 0x00\<close> is a non-minimal encoding of 1.
\<close>

lemma serialize_samples:
  "serialize 0 = [] \<and> serialize (- 128) = [0x80, 0x80] \<and> serialize 127 = [0x7F] \<and>
   serialize 129 = [0x81, 0x00]"
  by (simp add: serialize_def le_bytes.simps)

lemma deserialize_samples:
  "deserialize [0x81] = - 1 \<and> deserialize [0x81, 0x00] = 129 \<and> deserialize [0x01, 0x00] = 1"
  by (simp add: deserialize_def)

lemma IsMinimallyEncoded_samples:
  "IsMinimallyEncoded [0x81] 4 \<and> IsMinimallyEncoded [0x81, 0x00] 4 \<and>
   \<not> IsMinimallyEncoded [0x01, 0x00] 4 \<and> \<not> IsMinimallyEncoded [0x80] 4"
  by (simp add: IsMinimallyEncoded_def)

subsection \<open>The constructor and the operators, case by case\<close>

lemma CScriptNum_bytes_eq:
  "CScriptNum_bytes bld vch fRequireMinimal nMaxNumSize big_int =
     (if nMaxNumSize < length vch then Inl scriptnum_overflow_error
      else if fRequireMinimal \<and> \<not> IsMinimallyEncoded vch nMaxNumSize
        then Inl scriptnum_minencode_error
      else Inr \<lparr>m_value = (if big_int then v_bint (deserialize_bint vch)
                           else v_int64 (deserialize_int64 vch))\<rparr>)"
  by (simp add: CScriptNum_bytes_def Let_def asserted_def bind_r_def get_0_def
      deserialize_bint_def deserialize_int64_def deserialize_def)

lemma getvch_int64: "getvch \<lparr>m_value = v_int64 x\<rparr> = serialize (sint x)"
  by (simp add: getvch_def)

lemma getvch_bint: "getvch \<lparr>m_value = v_bint n\<rparr> = serialize n"
  by (simp add: getvch_def)

lemma decode_encode_int64:
  "length (getvch \<lparr>m_value = v_int64 x\<rparr>) \<le> nMaxNumSize \<Longrightarrow>
   CScriptNum_bytes bld (getvch \<lparr>m_value = v_int64 x\<rparr>) True nMaxNumSize False =
     Inr \<lparr>m_value = v_int64 x\<rparr>"
  by (simp add: CScriptNum_bytes_eq getvch_int64 IsMinimallyEncoded_serialize
      deserialize_int64_def deserialize_serialize)

lemma decode_encode_bint:
  "length (getvch \<lparr>m_value = v_bint n\<rparr>) \<le> nMaxNumSize \<Longrightarrow>
   CScriptNum_bytes bld (getvch \<lparr>m_value = v_bint n\<rparr>) True nMaxNumSize True =
     Inr \<lparr>m_value = v_bint n\<rparr>"
  by (simp add: CScriptNum_bytes_eq getvch_bint IsMinimallyEncoded_serialize
      deserialize_bint_def deserialize_serialize)

lemma encode_decode_bint:
  "IsMinimallyEncoded b nMaxNumSize \<Longrightarrow> length b \<le> nMaxNumSize \<Longrightarrow>
   \<exists>v. CScriptNum_bytes bld b fRequireMinimal nMaxNumSize True = Inr v \<and> getvch v = b"
  by (simp add: CScriptNum_bytes_eq getvch_bint deserialize_bint_def serialize_deserialize)

lemma encode_decode_int64:
  assumes "IsMinimallyEncoded b nMaxNumSize" "length b \<le> nMaxNumSize"
  shows "(\<exists>v. CScriptNum_bytes bld b fRequireMinimal nMaxNumSize False = Inr v \<and> getvch v = b)
           \<longleftrightarrow> in_int64 (deserialize b)"
proof -
  have b: "serialize (deserialize b) = b"
    using assms(1) by (rule serialize_deserialize)
  have "serialize (sint (word_of_int (deserialize b) :: int64_t)) = b
          \<longleftrightarrow> sint (word_of_int (deserialize b) :: int64_t) = deserialize b"
    using b serialize_inj by metis
  also have "\<dots> \<longleftrightarrow> in_int64 (deserialize b)"
    using sint_bounds64 [of "word_of_int (deserialize b)"]
    by (auto simp add: sint_word_of_int_64) (simp add: in_int64_def)
  finally show ?thesis
    using assms by (simp add: CScriptNum_bytes_eq getvch_int64 deserialize_int64_def)
qed

lemma compound_assign_mismatch:
  "index (m_value a) \<noteq> index (m_value b) \<Longrightarrow>
   compound_assign bld op0 op1 a b =
     Inl (if bld = assertions_enabled then assertion_failed assert_equal_index
          else bad_variant_access)"
  by (cases "m_value a"; cases "m_value b")
     (simp_all add: compound_assign_def asserted_def equal_index_def bind_r_def get_0_def get_1_def)

lemma compound_assign_int64:
  "compound_assign bld op0 op1 \<lparr>m_value = v_int64 a\<rparr> \<lparr>m_value = v_int64 b\<rparr> =
     bind_r (op0 a b) (\<lambda>c. Inr \<lparr>m_value = v_int64 c\<rparr>)"
  by (cases "op0 a b")
     (simp_all add: compound_assign_def asserted_def equal_index_def bind_r_def get_0_def)

lemma compound_assign_bint:
  "compound_assign bld op0 op1 \<lparr>m_value = v_bint a\<rparr> \<lparr>m_value = v_bint b\<rparr> =
     bind_r (op1 a b) (\<lambda>c. Inr \<lparr>m_value = v_bint c\<rparr>)"
  by (cases "op1 a b")
     (simp_all add: compound_assign_def asserted_def equal_index_def bind_r_def get_1_def)

lemma operator_eq_eq_value: "operator_eq_eq a b \<longleftrightarrow> mathematical_value a = mathematical_value b"
  by (cases "m_value a"; cases "m_value b")
     (simp_all add: operator_eq_eq_def equal_index_def mathematical_value_def sint_inj64)

lemma operator_less_value: "operator_less a b \<longleftrightarrow> mathematical_value a < mathematical_value b"
  by (cases "m_value a"; cases "m_value b")
     (simp_all add: operator_less_def equal_index_def mathematical_value_def word_sless_alt)

subsection \<open>Round trip through bytes\<close>

text \<open>
  Claim C1, as amended. Encoding a script number with \<open>getvch\<close> and decoding the bytes
  with the byte constructor, minimal encoding required and the size bound at least the
  length of the bytes, gives the number back, in the 64-bit and in the big
  representation. Conversely, for a minimally encoded sequence within the size bound, the
  constructor succeeds and \<open>getvch\<close> of the result is the sequence again: always in the
  big representation, and in the 64-bit representation exactly when the decoded integer
  fits into 64 bits.
\<close>

theorem byte_round_trip:
  "(length (getvch \<lparr>m_value = v_int64 x\<rparr>) \<le> nMaxNumSize \<longrightarrow>
      CScriptNum_bytes bld (getvch \<lparr>m_value = v_int64 x\<rparr>) True nMaxNumSize False =
        Inr \<lparr>m_value = v_int64 x\<rparr>) \<and>
   (length (getvch \<lparr>m_value = v_bint n\<rparr>) \<le> nMaxNumSize \<longrightarrow>
      CScriptNum_bytes bld (getvch \<lparr>m_value = v_bint n\<rparr>) True nMaxNumSize True =
        Inr \<lparr>m_value = v_bint n\<rparr>) \<and>
   (IsMinimallyEncoded b nMaxNumSize \<and> length b \<le> nMaxNumSize \<longrightarrow>
      (\<exists>v. CScriptNum_bytes bld b fRequireMinimal nMaxNumSize True = Inr v \<and> getvch v = b) \<and>
      ((\<exists>v. CScriptNum_bytes bld b fRequireMinimal nMaxNumSize False = Inr v \<and> getvch v = b)
         \<longleftrightarrow> in_int64 (deserialize b)))"
  using decode_encode_int64 decode_encode_bint encode_decode_bint encode_decode_int64
  by blast

theorem byte_round_trip_witness:
  "getvch \<lparr>m_value = v_int64 (- 128)\<rparr> = [0x80, 0x80] \<and>
   CScriptNum_bytes assertions_enabled [0x80, 0x80] True 4 False = Inr \<lparr>m_value = v_int64 (- 128)\<rparr> \<and>
   getvch \<lparr>m_value = v_bint 127\<rparr> = [0x7F] \<and>
   CScriptNum_bytes assertions_enabled [0x7F] True 4 True = Inr \<lparr>m_value = v_bint 127\<rparr> \<and>
   IsMinimallyEncoded [0x81] 4 \<and>
   (\<exists>v. CScriptNum_bytes assertions_enabled [0x81] True 4 True = Inr v \<and> getvch v = [0x81]) \<and>
   (\<exists>v. CScriptNum_bytes assertions_enabled [0x81] True 4 False = Inr v \<and> getvch v = [0x81])"
proof -
  have e1: "getvch \<lparr>m_value = v_int64 (- 128)\<rparr> = [0x80, 0x80]"
    by (simp add: getvch_def serialize_def le_bytes.simps)
  have e2: "getvch \<lparr>m_value = v_bint 127\<rparr> = [0x7F]"
    by (simp add: getvch_def serialize_def le_bytes.simps)
  have m: "IsMinimallyEncoded [0x81] 4"
    by (simp add: IsMinimallyEncoded_def)
  have d: "in_int64 (deserialize [0x81])"
    by (simp add: in_int64_def deserialize_def)
  show ?thesis
    using byte_round_trip [of "- 128" 4 assertions_enabled 127 "[0x81]" True] e1 e2 m d
    by simp
qed

text \<open>
  The claim as stated fails in the 64-bit representation: the nine bytes below are
  minimally encoded and stand for \<open>2 ^ 64\<close>, the constructor accepts them, and the bytes
  of the result are not the nine bytes.
\<close>

theorem byte_round_trip_counterexample:
  "IsMinimallyEncoded [0, 0, 0, 0, 0, 0, 0, 0, 1] 9 \<and>
   CScriptNum_bytes assertions_enabled [0, 0, 0, 0, 0, 0, 0, 0, 1] True 9 False =
     Inr \<lparr>m_value = v_int64 0\<rparr> \<and>
   getvch \<lparr>m_value = v_int64 0\<rparr> \<noteq> [0, 0, 0, 0, 0, 0, 0, 0, 1]"
  by (simp add: CScriptNum_bytes_eq IsMinimallyEncoded_def deserialize_int64_def
      deserialize_def getvch_def serialize_def)

text \<open>
  This does not depend on how the 64-bit decoder treats integers it cannot hold: no
  decoder into \<open>int64_t\<close> has an encoder that gives every minimally encoded sequence
  back, because there are more such sequences than 64-bit values.
\<close>

lemma no_int64_decoder_round_trips:
  "\<not> (\<exists>(dec :: uint8_t list \<Rightarrow> int64_t) enc.
        \<forall>b. IsMinimallyEncoded b (length b) \<longrightarrow> enc (dec b) = b)"
proof
  assume "\<exists>(dec :: uint8_t list \<Rightarrow> int64_t) enc.
            \<forall>b. IsMinimallyEncoded b (length b) \<longrightarrow> enc (dec b) = b"
  then obtain dec :: "uint8_t list \<Rightarrow> int64_t" and enc
    where r: "\<And>b. IsMinimallyEncoded b (length b) \<Longrightarrow> enc (dec b) = b" by blast
  let ?M = "range (\<lambda>k. replicate (Suc k) (1 :: uint8_t))"
  have "inj (\<lambda>k. replicate (Suc k) (1 :: uint8_t))"
    by (rule injI) (metis length_replicate nat.inject)
  then have inf: "infinite ?M"
    by (simp add: finite_image_iff)
  have min: "IsMinimallyEncoded b (length b)" if "b \<in> ?M" for b
    using that by (auto simp add: IsMinimallyEncoded_def simp del: replicate_Suc)
  have "inj_on dec ?M"
    by (rule inj_on_inverseI [where g = enc]) (simp add: r min)
  moreover have "finite (dec ` ?M)"
    by (rule finite_subset [OF subset_UNIV]) simp
  ultimately have "finite ?M"
    by (rule finite_imageD [rotated])
  with inf show False by contradiction
qed

subsection \<open>Failures of the byte constructor\<close>

text \<open>
  Claim C2. The byte constructor throws \<open>scriptnum_overflow_error\<close> exactly when the
  sequence is longer than the size bound; otherwise it throws
  \<open>scriptnum_minencode_error\<close> exactly when minimal encoding is required and the sequence
  is not minimally encoded; otherwise it succeeds with the decoded value in the
  representation chosen by \<open>big_int\<close>. On the empty sequence it succeeds with zero in
  that representation.
\<close>

theorem constructor_failures:
  "CScriptNum_bytes bld vch fRequireMinimal nMaxNumSize big_int =
     (if nMaxNumSize < length vch then Inl scriptnum_overflow_error
      else if fRequireMinimal \<and> \<not> IsMinimallyEncoded vch nMaxNumSize
        then Inl scriptnum_minencode_error
      else Inr \<lparr>m_value = (if big_int then v_bint (deserialize_bint vch)
                           else v_int64 (deserialize_int64 vch))\<rparr>) \<and>
   CScriptNum_bytes bld [] fRequireMinimal nMaxNumSize big_int =
     Inr \<lparr>m_value = (if big_int then v_bint 0 else v_int64 0)\<rparr>"
  by (simp add: CScriptNum_bytes_eq)
     (simp add: IsMinimallyEncoded_def deserialize_bint_def deserialize_int64_def deserialize_def)

theorem constructor_failures_witness:
  "CScriptNum_bytes NDEBUG [0x01, 0x00] True 1 False = Inl scriptnum_overflow_error \<and>
   CScriptNum_bytes NDEBUG [0x01, 0x00] True 4 False = Inl scriptnum_minencode_error \<and>
   CScriptNum_bytes NDEBUG [0x01, 0x00] False 4 False = Inr \<lparr>m_value = v_int64 1\<rparr> \<and>
   CScriptNum_bytes NDEBUG [0x81] True 4 True = Inr \<lparr>m_value = v_bint (- 1)\<rparr> \<and>
   CScriptNum_bytes assertions_enabled [] True 0 True = Inr \<lparr>m_value = v_bint 0\<rparr>"
  using constructor_failures [of NDEBUG "[0x01, 0x00]" True 1 False]
    constructor_failures [of NDEBUG "[0x01, 0x00]" True 4 False]
    constructor_failures [of NDEBUG "[0x01, 0x00]" False 4 False]
    constructor_failures [of NDEBUG "[0x81]" True 4 True]
    constructor_failures [of assertions_enabled "[]" True 0 True]
  by (simp add: IsMinimallyEncoded_def deserialize_bint_def deserialize_int64_def deserialize_def)

subsection \<open>Overflow of addition and subtraction\<close>

text \<open>
  Claim C3, as amended. The only test for overflow in \<open>operator+=\<close> and \<open>operator-=\<close> is
  the argument of an \<open>assert\<close>. In a build with assertions compiled in, \<open>a += b\<close> on two
  64-bit script numbers fails on that assertion exactly when the sum of the two integers
  is outside the signed 64-bit range, and otherwise yields the sum; \<open>a -= b\<close> does the
  same for the difference. In a build compiled with \<open>NDEBUG\<close> the assertion is removed:
  an out-of-range sum or difference is then not detected, and is a signed overflow,
  which C++ leaves undefined. In range, both builds yield the sum or difference.
\<close>

theorem add_sub_overflow_detected:
  "operator_plus_eq bld \<lparr>m_value = v_int64 a\<rparr> \<lparr>m_value = v_int64 b\<rparr> =
     (if in_int64 (sint a + sint b) then Inr \<lparr>m_value = v_int64 (a + b)\<rparr>
      else if bld = assertions_enabled then Inl (assertion_failed assert_add_in_range)
      else Inl (undefined_behaviour signed_overflow)) \<and>
   operator_minus_eq bld \<lparr>m_value = v_int64 a\<rparr> \<lparr>m_value = v_int64 b\<rparr> =
     (if in_int64 (sint a - sint b) then Inr \<lparr>m_value = v_int64 (a - b)\<rparr>
      else if bld = assertions_enabled then Inl (assertion_failed assert_sub_in_range)
      else Inl (undefined_behaviour signed_overflow)) \<and>
   (in_int64 (sint a + sint b) \<longrightarrow> sint (a + b) = sint a + sint b) \<and>
   (in_int64 (sint a - sint b) \<longrightarrow> sint (a - b) = sint a - sint b)"
  by (cases bld)
     (simp_all add: operator_plus_eq_def operator_minus_eq_def compound_assign_int64
        add_int64_def sub_int64_def add_guard_iff sub_guard_iff asserted_def bind_r_def
        sint_add64 sint_sub64)

theorem add_sub_overflow_detected_witness:
  "operator_plus_eq assertions_enabled \<lparr>m_value = v_int64 int64_max\<rparr> \<lparr>m_value = v_int64 1\<rparr> =
     Inl (assertion_failed assert_add_in_range) \<and>
   operator_minus_eq assertions_enabled \<lparr>m_value = v_int64 int64_min\<rparr> \<lparr>m_value = v_int64 1\<rparr> =
     Inl (assertion_failed assert_sub_in_range) \<and>
   operator_minus_eq NDEBUG \<lparr>m_value = v_int64 int64_min\<rparr> \<lparr>m_value = v_int64 1\<rparr> =
     Inl (undefined_behaviour signed_overflow) \<and>
   operator_plus_eq assertions_enabled \<lparr>m_value = v_int64 2\<rparr> \<lparr>m_value = v_int64 3\<rparr> =
     Inr \<lparr>m_value = v_int64 5\<rparr> \<and>
   operator_plus_eq NDEBUG \<lparr>m_value = v_int64 2\<rparr> \<lparr>m_value = v_int64 3\<rparr> =
     Inr \<lparr>m_value = v_int64 5\<rparr> \<and>
   in_int64 (sint (2 :: int64_t) + sint (3 :: int64_t)) \<and>
   sint (2 + 3 :: int64_t) = sint (2 :: int64_t) + sint (3 :: int64_t)"
  using add_sub_overflow_detected [of assertions_enabled int64_max 1]
    add_sub_overflow_detected [of assertions_enabled int64_min 1]
    add_sub_overflow_detected [of NDEBUG int64_min 1]
    add_sub_overflow_detected [of assertions_enabled 2 3]
    add_sub_overflow_detected [of NDEBUG 2 3]
  by (simp add: in_int64_def int64_max_def int64_min_def)

text \<open>
  The claim as stated, for every build, fails: compiled with \<open>NDEBUG\<close>, adding 1 to the
  largest 64-bit value overflows, and the operation does not end in the overflow
  assertion, nor in any other failure the source raises.
\<close>

theorem add_sub_overflow_counterexample:
  "\<not> in_int64 (sint int64_max + sint (1 :: int64_t)) \<and>
   operator_plus_eq NDEBUG \<lparr>m_value = v_int64 int64_max\<rparr> \<lparr>m_value = v_int64 1\<rparr> =
     Inl (undefined_behaviour signed_overflow) \<and>
   operator_plus_eq NDEBUG \<lparr>m_value = v_int64 int64_max\<rparr> \<lparr>m_value = v_int64 1\<rparr> \<noteq>
     Inl (assertion_failed assert_add_in_range)"
  by (simp add: operator_plus_eq_def compound_assign_int64 add_int64_def asserted_def
      bind_r_def in_int64_def int64_max_def)

subsection \<open>Division and remainder by zero\<close>

text \<open>
  Claim C4, as amended. \<open>operator/=\<close> and \<open>operator%=\<close> do not test the divisor. In the
  64-bit representation a zero divisor reaches the built-in division, whose behaviour is
  undefined; no \<open>DivByZero\<close> failure is raised. In the big representation the division is
  the big integer's own, which fails with \<open>DivByZero\<close>.
\<close>

theorem division_by_zero_unchecked:
  "operator_div_eq bld \<lparr>m_value = v_int64 a\<rparr> \<lparr>m_value = v_int64 0\<rparr> =
     Inl (undefined_behaviour division_by_zero) \<and>
   operator_mod_eq bld \<lparr>m_value = v_int64 a\<rparr> \<lparr>m_value = v_int64 0\<rparr> =
     Inl (undefined_behaviour division_by_zero) \<and>
   operator_div_eq bld \<lparr>m_value = v_bint k\<rparr> \<lparr>m_value = v_bint 0\<rparr> = Inl DivByZero \<and>
   operator_mod_eq bld \<lparr>m_value = v_bint k\<rparr> \<lparr>m_value = v_bint 0\<rparr> = Inl DivByZero"
  by (simp add: operator_div_eq_def operator_mod_eq_def compound_assign_int64
      compound_assign_bint div_int64_def mod_int64_def div_bint_def mod_bint_def bind_r_def)

theorem division_by_zero_unchecked_witness:
  "operator_div_eq NDEBUG \<lparr>m_value = v_int64 7\<rparr> \<lparr>m_value = v_int64 0\<rparr> =
     Inl (undefined_behaviour division_by_zero) \<and>
   operator_mod_eq NDEBUG \<lparr>m_value = v_bint 7\<rparr> \<lparr>m_value = v_bint 0\<rparr> = Inl DivByZero"
  using division_by_zero_unchecked [of NDEBUG 7 7] by simp

text \<open>
  The claim as stated fails for two 64-bit script numbers: dividing 1 by 0 does not end
  in \<open>DivByZero\<close>.
\<close>

theorem division_by_zero_counterexample:
  "operator_div_eq assertions_enabled \<lparr>m_value = v_int64 1\<rparr> \<lparr>m_value = v_int64 0\<rparr> =
     Inl (undefined_behaviour division_by_zero) \<and>
   operator_div_eq assertions_enabled \<lparr>m_value = v_int64 1\<rparr> \<lparr>m_value = v_int64 0\<rparr> \<noteq>
     Inl DivByZero \<and>
   operator_mod_eq assertions_enabled \<lparr>m_value = v_int64 1\<rparr> \<lparr>m_value = v_int64 0\<rparr> \<noteq>
     Inl DivByZero"
  by (simp add: operator_div_eq_def operator_mod_eq_def compound_assign_int64
      div_int64_def mod_int64_def bind_r_def)

subsection \<open>Operands of different representations\<close>

text \<open>
  Claim C5. When the two operands hold different alternatives, each of \<open>+=\<close>, \<open>-=\<close>,
  \<open>*=\<close>, \<open>/=\<close>, \<open>%=\<close> and \<open>&=\<close> fails, in every build: with assertions compiled in, on the
  assertion \<open>equal_index(other)\<close>; compiled with \<open>NDEBUG\<close>, on the
  \<open>std::bad_variant_access\<close> thrown by \<open>std::get\<close> applied to the other operand. No build
  yields a result.
\<close>

theorem tag_mismatch_fails:
  assumes "index (m_value a) \<noteq> index (m_value b)"
  shows "operator_plus_eq bld a b = Inl (if bld = assertions_enabled then assertion_failed assert_equal_index else bad_variant_access) \<and>
         operator_minus_eq bld a b = Inl (if bld = assertions_enabled then assertion_failed assert_equal_index else bad_variant_access) \<and>
         operator_times_eq bld a b = Inl (if bld = assertions_enabled then assertion_failed assert_equal_index else bad_variant_access) \<and>
         operator_div_eq bld a b = Inl (if bld = assertions_enabled then assertion_failed assert_equal_index else bad_variant_access) \<and>
         operator_mod_eq bld a b = Inl (if bld = assertions_enabled then assertion_failed assert_equal_index else bad_variant_access) \<and>
         operator_and_eq bld a b = Inl (if bld = assertions_enabled then assertion_failed assert_equal_index else bad_variant_access)"
  unfolding operator_plus_eq_def operator_minus_eq_def operator_times_eq_def
    operator_div_eq_def operator_mod_eq_def operator_and_eq_def
  using assms by (simp only: compound_assign_mismatch simp_thms)

theorem tag_mismatch_fails_witness:
  "index (m_value \<lparr>m_value = v_int64 1\<rparr>) \<noteq> index (m_value \<lparr>m_value = v_bint 1\<rparr>) \<and>
   operator_plus_eq assertions_enabled \<lparr>m_value = v_int64 1\<rparr> \<lparr>m_value = v_bint 1\<rparr> =
     Inl (assertion_failed assert_equal_index) \<and>
   operator_and_eq NDEBUG \<lparr>m_value = v_bint 1\<rparr> \<lparr>m_value = v_int64 1\<rparr> =
     Inl bad_variant_access"
proof -
  have h: "index (m_value \<lparr>m_value = v_int64 1\<rparr>) \<noteq> index (m_value \<lparr>m_value = v_bint 1\<rparr>)"
    by simp
  have h': "index (m_value \<lparr>m_value = v_bint 1\<rparr>) \<noteq> index (m_value \<lparr>m_value = v_int64 1\<rparr>)"
    by simp
  show ?thesis
    using h tag_mismatch_fails [OF h, of assertions_enabled] tag_mismatch_fails [OF h', of NDEBUG]
    by simp
qed

subsection \<open>Comparison across representations\<close>

text \<open>
  Claim C6. \<open>operator==\<close> and \<open>operator<\<close> return a truth value for every pair of script
  numbers and compare the integers the two stand for, whatever the alternatives held. In
  particular the 64-bit number \<open>n\<close> equals the big number \<open>n\<close> and is less than the big
  number \<open>n + 1\<close>.
\<close>

theorem comparison_by_value:
  "(operator_eq_eq a b \<longleftrightarrow> mathematical_value a = mathematical_value b) \<and>
   (operator_less a b \<longleftrightarrow> mathematical_value a < mathematical_value b) \<and>
   operator_eq_eq \<lparr>m_value = v_int64 n\<rparr> \<lparr>m_value = v_bint (sint n)\<rparr> \<and>
   operator_eq_eq \<lparr>m_value = v_bint (sint n)\<rparr> \<lparr>m_value = v_int64 n\<rparr> \<and>
   operator_less \<lparr>m_value = v_int64 n\<rparr> \<lparr>m_value = v_bint (sint n + 1)\<rparr>"
  by (simp add: operator_eq_eq_value operator_less_value mathematical_value_def)

theorem comparison_by_value_witness:
  "operator_eq_eq \<lparr>m_value = v_int64 (- 3)\<rparr> \<lparr>m_value = v_bint (- 3)\<rparr> \<and>
   operator_less \<lparr>m_value = v_int64 int64_max\<rparr> \<lparr>m_value = v_bint (2 ^ 63)\<rparr> \<and>
   \<not> operator_less \<lparr>m_value = v_bint (2 ^ 63)\<rparr> \<lparr>m_value = v_int64 int64_max\<rparr>"
  using comparison_by_value [of "\<lparr>m_value = v_int64 (- 3)\<rparr>" "\<lparr>m_value = v_bint (- 3)\<rparr>" "- 3"]
        comparison_by_value [of "\<lparr>m_value = v_bint (2 ^ 63)\<rparr>" "\<lparr>m_value = v_int64 int64_max\<rparr>" int64_max]
  by (simp add: mathematical_value_def int64_max_def)

subsection \<open>Saturating conversion\<close>

text \<open>
  Claim C7. On a 64-bit script number \<open>getint\<close> returns the largest \<open>int\<close> when the value
  is above it, the smallest \<open>int\<close> when the value is below it, and the value itself
  otherwise. On a big script number it fails in every build: on its assertion, or on
  \<open>std::bad_variant_access\<close> when compiled with \<open>NDEBUG\<close>.
\<close>

theorem getint_saturates:
  "(\<exists>r. getint bld \<lparr>m_value = v_int64 n\<rparr> = Inr r \<and>
        sint r = (if int_max < sint n then int_max
                  else if sint n < int_min then int_min
                  else sint n)) \<and>
   getint bld \<lparr>m_value = v_bint k\<rparr> =
     Inl (if bld = assertions_enabled then assertion_failed assert_index_0
          else bad_variant_access)"
  by (simp add: getint_def asserted_def bind_r_def get_0_def sint_scast_32)
    (simp add: int_max_def int_min_def)

theorem getint_saturates_witness:
  "getint NDEBUG \<lparr>m_value = v_int64 0x100000000\<rparr> = Inr 0x7FFFFFFF \<and>
   getint assertions_enabled \<lparr>m_value = v_int64 (- 0x100000000)\<rparr> = Inr 0x80000000 \<and>
   getint assertions_enabled \<lparr>m_value = v_int64 (- 5)\<rparr> = Inr (- 5)"
  using getint_saturates [of NDEBUG "0x100000000" 0]
        getint_saturates [of assertions_enabled "- 0x100000000" 0]
        getint_saturates [of assertions_enabled "- 5" 0]
  by (simp add: getint_def asserted_def bind_r_def get_0_def int_max_def int_min_def)

section \<open>Properties of the invalid-transaction records\<close>

subsection \<open>Truncation\<close>

lemma TruncateTransactionDetails_full:
  "mTransaction this = holds_CTransactionRef tx \<Longrightarrow>
   TruncateTransactionDetails this =
     (True, this\<lparr>mTransaction := holds_TxData \<lparr>txSize = GetTotalSize tx, txid = GetId tx\<rparr>\<rparr>)"
  by (simp add: TruncateTransactionDetails_def)

lemma TruncateTransactionDetails_truncated:
  "mTransaction this = holds_TxData d \<Longrightarrow> TruncateTransactionDetails this = (False, this)"
  by (simp add: TruncateTransactionDetails_def)

lemma truncate_calls_truncated:
  "mTransaction this = holds_TxData d \<Longrightarrow> truncate_calls n this = (replicate n False, this)"
  by (induction n) (simp_all add: TruncateTransactionDetails_truncated)

lemma truncate_calls_once: "length (filter id (fst (truncate_calls n this))) \<le> 1"
proof (cases n)
  case 0
  then show ?thesis by simp
next
  case (Suc k)
  show ?thesis
  proof (cases "mTransaction this")
    case (holds_CTransactionRef tx)
    then show ?thesis
      using Suc truncate_calls_truncated
        [of "this\<lparr>mTransaction := holds_TxData \<lparr>txSize = GetTotalSize tx, txid = GetId tx\<rparr>\<rparr>" _ k]
      by (simp add: TruncateTransactionDetails_full)
  next
    case (holds_TxData d)
    then show ?thesis
      by (simp add: truncate_calls_truncated)
  qed
qed

text \<open>
  Claim C8. \<open>TruncateTransactionDetails\<close> returns true exactly when \<open>mTransaction\<close> holds
  the transaction, and then replaces it by the transaction's size and id; when
  \<open>mTransaction\<close> already holds a \<open>TxData\<close> it returns false and leaves the object as it
  is. In any sequence of calls on one object at most one call returns true.
\<close>

theorem truncate_at_most_once:
  "(fst (TruncateTransactionDetails this) \<longleftrightarrow> (\<exists>tx. mTransaction this = holds_CTransactionRef tx)) \<and>
   (mTransaction this = holds_CTransactionRef tx \<longrightarrow>
      TruncateTransactionDetails this =
        (True, this\<lparr>mTransaction := holds_TxData \<lparr>txSize = GetTotalSize tx, txid = GetId tx\<rparr>\<rparr>)) \<and>
   (mTransaction this = holds_TxData d \<longrightarrow> TruncateTransactionDetails this = (False, this)) \<and>
   length (filter id (fst (truncate_calls n this))) \<le> 1"
  using TruncateTransactionDetails_full [of this] TruncateTransactionDetails_truncated [of this]
    truncate_calls_once [of n this]
  by (cases "mTransaction this") auto

theorem truncate_at_most_once_witness:
  "TruncateTransactionDetails (InvalidTxnInfo_block 1000 tx_example 5 7 900 state_invalid) =
     (True, (InvalidTxnInfo_block 1000 tx_example 5 7 900 state_invalid)
              \<lparr>mTransaction := holds_TxData \<lparr>txSize = 250, txid = 0xABCD\<rparr>\<rparr>) \<and>
   TruncateTransactionDetails
     ((InvalidTxnInfo_block 1000 tx_example 5 7 900 state_invalid)
        \<lparr>mTransaction := holds_TxData \<lparr>txSize = 250, txid = 0xABCD\<rparr>\<rparr>) =
     (False, (InvalidTxnInfo_block 1000 tx_example 5 7 900 state_invalid)
               \<lparr>mTransaction := holds_TxData \<lparr>txSize = 250, txid = 0xABCD\<rparr>\<rparr>) \<and>
   fst (truncate_calls 3 (InvalidTxnInfo_block 1000 tx_example 5 7 900 state_invalid)) =
     [True, False, False] \<and>
   length (filter id (fst (truncate_calls 3
     (InvalidTxnInfo_block 1000 tx_example 5 7 900 state_invalid)))) \<le> 1"
proof -
  let ?i = "InvalidTxnInfo_block 1000 tx_example 5 7 900 state_invalid"
  let ?d = "\<lparr>txSize = 250, txid = 0xABCD\<rparr>"
  have h: "mTransaction ?i = holds_CTransactionRef tx_example"
    by (simp add: InvalidTxnInfo_block_def InvalidTxnInfo_details_def)
  have h': "mTransaction (?i\<lparr>mTransaction := holds_TxData ?d\<rparr>) = holds_TxData ?d"
    by simp
  have c: "fst (truncate_calls 3 ?i) = [True, False, False]"
    by (simp add: numeral_3_eq_3 TruncateTransactionDetails_def InvalidTxnInfo_block_def
        InvalidTxnInfo_details_def)
  show ?thesis
    using truncate_at_most_once [of ?i tx_example ?d 3]
      truncate_at_most_once [of "?i\<lparr>mTransaction := holds_TxData ?d\<rparr>" tx_example ?d 3] h h' c
    by (simp add: tx_example_def)
qed

subsection \<open>Publication on scope exit\<close>

text \<open>
  Claim C9. The destructor of \<open>CScopedInvalidTxSenderBlock\<close> hands one record to the
  publisher when the validation state it refers to is not valid at that moment, and
  nothing when it is valid. The record carries the transaction, the block details with
  the origins registered for the block hash, the time of the call and the validation
  state. What decides is the state on exit from the scope, not the state on entry.
\<close>

theorem scoped_sender_publishes:
  "CScopedInvalidTxSenderBlock_dtor now mRegistry validationState this publisher =
     (if IsValid validationState then publisher
      else publisher @
        [\<lparr>mTransaction = holds_CTransactionRef (transaction this),
          mTxValidationState = validationState,
          mDetails = holds_BlockDetails
            ((blockDetails this)\<lparr>origins := GetOrigins mRegistry (hash (blockDetails this))\<rparr>),
          mRejectionTime = now\<rparr>]) \<and>
   snd (validation_scope now mRegistry tx blockIndex body state publisher) =
     (if IsValid (body state) then publisher
      else publisher @
        [\<lparr>mTransaction = holds_CTransactionRef tx,
          mTxValidationState = body state,
          mDetails = holds_BlockDetails
            ((blockDetails (CScopedInvalidTxSenderBlock_ctor tx blockIndex))
               \<lparr>origins := GetOrigins mRegistry
                  (hash (blockDetails (CScopedInvalidTxSenderBlock_ctor tx blockIndex)))\<rparr>),
          mRejectionTime = now\<rparr>])"
  by (simp add: CScopedInvalidTxSenderBlock_dtor_def validation_scope_def Publish_def
      InvalidTxnInfo_details_def Let_def CScopedInvalidTxSenderBlock_ctor_def)

theorem scoped_sender_publishes_witness:
  "snd (validation_scope 1000 [] tx_example None (\<lambda>s. state_invalid) state_valid []) =
     [\<lparr>mTransaction = holds_CTransactionRef tx_example,
       mTxValidationState = state_invalid,
       mDetails = holds_BlockDetails \<lparr>origins = [], hash = 0, height = 0, time = 0\<rparr>,
       mRejectionTime = 1000\<rparr>] \<and>
   snd (validation_scope 1000 [] tx_example None (\<lambda>s. state_valid) state_invalid []) = []"
  using scoped_sender_publishes [of 1000 "[]" state_invalid
      "CScopedInvalidTxSenderBlock_ctor tx_example None" "[]" tx_example None
      "\<lambda>s. state_invalid" state_valid]
    scoped_sender_publishes [of 1000 "[]" state_valid
      "CScopedInvalidTxSenderBlock_ctor tx_example None" "[]" tx_example None
      "\<lambda>s. state_valid" state_invalid]
  by (simp add: state_invalid_def state_valid_def CScopedInvalidTxSenderBlock_ctor_def
      GetOrigins_def)

subsection \<open>The two times of the block constructor\<close>

text \<open>
  Claim C10. The constructor taking \<open>(tx, hash, height, time, state)\<close> stores its \<open>time\<close>
  argument as the time of the block details and nowhere else; the rejection time of the
  record is the value of the clock at construction, whatever the arguments are.
\<close>

theorem block_constructor_times:
  "mDetails (InvalidTxnInfo_block now tx h ht t state) =
     holds_BlockDetails \<lparr>origins = [], hash = h, height = ht, time = t\<rparr> \<and>
   mRejectionTime (InvalidTxnInfo_block now tx h ht t state) = now \<and>
   mRejectionTime (InvalidTxnInfo_block now tx h ht t' state) =
     mRejectionTime (InvalidTxnInfo_block now tx h ht t state)"
  by (simp add: InvalidTxnInfo_block_def InvalidTxnInfo_details_def)

theorem block_constructor_times_witness:
  "mDetails (InvalidTxnInfo_block 1000 tx_example 5 7 900 state_invalid) =
     holds_BlockDetails \<lparr>origins = [], hash = 5, height = 7, time = 900\<rparr> \<and>
   mRejectionTime (InvalidTxnInfo_block 1000 tx_example 5 7 900 state_invalid) = 1000 \<and>
   mRejectionTime (InvalidTxnInfo_block 1000 tx_example 5 7 1 state_invalid) = 1000"
  using block_constructor_times [of 1000 tx_example 5 7 900 state_invalid 1]
  by simp

end
